theory Spec2Isabelle
  imports Complex_Main
begin

section \<open>Scan-and-go checkout backend: data model\<close>

text \<open>
  The server of \<^verbatim>\<open>src/index.js\<close> keeps four module-level arrays (\<^verbatim>\<open>stores\<close>,
  \<^verbatim>\<open>products\<close>, \<^verbatim>\<open>orders\<close>, \<^verbatim>\<open>verifications\<close>) and mutates the last two from its
  request handlers. The arrays become lists in a state record that every handler takes
  and returns. Modelling conventions:
  \<^item> a JavaScript number is an IEEE-754 double: a finite one is the rational it denotes,
    beside the two infinities and NaN, and every arithmetic operation rounds its exact
    result to the nearest double, a tie going to the even significand; +0 and -0 are one
    value (they are \<^verbatim>\<open>===\<close> and print alike in JSON);
  \<^item> a value that may be \<^verbatim>\<open>undefined\<close> is an \<open>option\<close>;
  \<^item> an ISO-8601 timestamp string is the instant it denotes, in milliseconds since the
    epoch, and every read of the clock (\<^verbatim>\<open>Date.now()\<close>, \<^verbatim>\<open>new Date()\<close>) is an argument of
    the handler, one argument per read;
  \<^item> the status strings written by the code are the constructors of a datatype.
\<close>

datatype number = Finite rat | Pos_Infinity | Neg_Infinity | NaN

datatype status = Pending_payment | Payment_claimed | Verified | Rejected | Completed

record product =
  productId :: string
  barcode :: string
  name :: string
  brand :: string
  category :: string
  price :: number

record store =
  store_storeId :: string
  upiId :: string
  upiQrCode :: string

text \<open>An order item is \<^verbatim>\<open>{...product, quantity, itemTotal}\<close>: a copy of the product's fields
  with two more.\<close>

record order_item =
  item_product :: product
  quantity :: "number option"
  itemTotal :: number

record order =
  orderId :: string
  storeId :: string
  customerPhone :: string
  items :: "order_item list"
  subtotal :: number
  tax :: number
  total :: number
  status :: status
  createdAt :: nat
  expiresAt :: nat
  paymentClaimedAt :: "nat option"
  utrLast4 :: "string option"
  paidAmount :: "number option"
  verifiedAt :: "nat option"
  verifiedBy :: "string option"
  verificationNotes :: "string option"
  rejectedAt :: "nat option"
  rejectedBy :: "string option"
  rejectionReason :: "string option"
  completedAt :: "nat option"

record verification =
  verificationId :: string
  v_orderId :: string
  v_cashierId :: string
  v_verified :: bool
  v_notes :: "string option"
  v_timestamp :: nat

record server_state =
  stores :: "store list"
  products :: "product list"
  orders :: "order list"
  verifications :: "verification list"

text \<open>The body of an order-creation request carries items \<^verbatim>\<open>{productId, quantity}\<close>;
  nothing checks that the quantity is there.\<close>

record req_item =
  req_productId :: string
  req_quantity :: "number option"

text \<open>A failure response: the HTTP status code and the \<^verbatim>\<open>message\<close> of the JSON body.\<close>

type_synonym http_error = "nat \<times> string"

section \<open>JavaScript primitives\<close>

text \<open>\<^verbatim>\<open>!x\<close> on a string that may be missing: \<^verbatim>\<open>undefined\<close> and the empty string are falsy.\<close>

fun falsy :: "string option \<Rightarrow> bool" where
  "falsy None = True"
| "falsy (Some s) = (s = [])"

text \<open>\<^verbatim>\<open>x || d\<close> on such a string.\<close>

fun or_default :: "string option \<Rightarrow> string \<Rightarrow> string" where
  "or_default None d = d"
| "or_default (Some s) d = (if s = [] then d else s)"

subsection \<open>Double-precision arithmetic\<close>

text \<open>The number of binary digits of a natural number.\<close>

fun bit_length :: "nat \<Rightarrow> nat" where
  "bit_length n = (if n = 0 then 0 else Suc (bit_length (n div 2)))"

declare bit_length.simps [simp del]

definition pow2 :: "int \<Rightarrow> rat" where
  "pow2 k = (if 0 \<le> k then 2 ^ nat k else 1 / 2 ^ nat (- k))"

text \<open>For \<open>x > 0\<close>, the exponent \<open>e\<close> with \<open>2 ^ e \<le> x < 2 ^ (e + 1)\<close>: read off the
  integer part of \<open>x\<close> or of \<open>1 / x\<close>, and put right when \<open>x\<close> is a power of two
  below one.\<close>

definition binary_exponent :: "rat \<Rightarrow> int" where
  "binary_exponent x =
     (let e0 = (if 1 \<le> x then int (bit_length (nat \<lfloor>x\<rfloor>)) - 1
                else - int (bit_length (nat \<lfloor>1 / x\<rfloor>)))
      in if pow2 (e0 + 1) \<le> x then e0 + 1 else e0)"

definition round_half_even :: "rat \<Rightarrow> int" where
  "round_half_even q =
     (let f = \<lfloor>q\<rfloor>; r = q - of_int f
      in if r < 1 / 2 then f else if 1 / 2 < r then f + 1 else if even f then f else f + 1)"

text \<open>The double nearest to an exact value: 53 significant bits, exponents from -1022
  (below that the spacing stays \<open>2 ^ -1074\<close>) to 1023 (beyond that an infinity).\<close>

definition to_double :: "rat \<Rightarrow> number" where
  "to_double x =
     (if x = 0 then Finite 0
      else
        let a = \<bar>x\<bar>;
            e = max (binary_exponent a) (- 1022);
            ulp = pow2 (e - 52);
            m = of_int (round_half_even (a / ulp)) * ulp
        in if pow2 1024 \<le> m then (if 0 < x then Pos_Infinity else Neg_Infinity)
           else Finite (if 0 < x then m else - m))"

text \<open>\<^verbatim>\<open>a + b\<close>, \<^verbatim>\<open>a * b\<close> and \<^verbatim>\<open>a / b\<close> on numbers.\<close>

fun num_add :: "number \<Rightarrow> number \<Rightarrow> number" where
  "num_add (Finite a) (Finite b) = to_double (a + b)"
| "num_add NaN y = NaN"
| "num_add x NaN = NaN"
| "num_add Pos_Infinity Neg_Infinity = NaN"
| "num_add Neg_Infinity Pos_Infinity = NaN"
| "num_add Pos_Infinity y = Pos_Infinity"
| "num_add x Pos_Infinity = Pos_Infinity"
| "num_add Neg_Infinity y = Neg_Infinity"
| "num_add x Neg_Infinity = Neg_Infinity"

fun num_mul :: "number \<Rightarrow> number \<Rightarrow> number" where
  "num_mul (Finite a) (Finite b) = to_double (a * b)"
| "num_mul NaN y = NaN"
| "num_mul x NaN = NaN"
| "num_mul (Finite a) Pos_Infinity =
     (if a = 0 then NaN else if 0 < a then Pos_Infinity else Neg_Infinity)"
| "num_mul (Finite a) Neg_Infinity =
     (if a = 0 then NaN else if 0 < a then Neg_Infinity else Pos_Infinity)"
| "num_mul Pos_Infinity (Finite b) =
     (if b = 0 then NaN else if 0 < b then Pos_Infinity else Neg_Infinity)"
| "num_mul Neg_Infinity (Finite b) =
     (if b = 0 then NaN else if 0 < b then Neg_Infinity else Pos_Infinity)"
| "num_mul Pos_Infinity Pos_Infinity = Pos_Infinity"
| "num_mul Pos_Infinity Neg_Infinity = Neg_Infinity"
| "num_mul Neg_Infinity Pos_Infinity = Neg_Infinity"
| "num_mul Neg_Infinity Neg_Infinity = Pos_Infinity"

text \<open>A zero divisor is taken as +0.\<close>

fun num_div :: "number \<Rightarrow> number \<Rightarrow> number" where
  "num_div (Finite a) (Finite b) =
     (if b = 0 then (if a = 0 then NaN else if 0 < a then Pos_Infinity else Neg_Infinity)
      else to_double (a / b))"
| "num_div NaN y = NaN"
| "num_div x NaN = NaN"
| "num_div (Finite a) Pos_Infinity = Finite 0"
| "num_div (Finite a) Neg_Infinity = Finite 0"
| "num_div Pos_Infinity (Finite b) = (if 0 \<le> b then Pos_Infinity else Neg_Infinity)"
| "num_div Neg_Infinity (Finite b) = (if 0 \<le> b then Neg_Infinity else Pos_Infinity)"
| "num_div Pos_Infinity Pos_Infinity = NaN"
| "num_div Pos_Infinity Neg_Infinity = NaN"
| "num_div Neg_Infinity Pos_Infinity = NaN"
| "num_div Neg_Infinity Neg_Infinity = NaN"

text \<open>\<^verbatim>\<open>Math.round\<close>: the nearest integer, a tie going up; the result is exact. An
  infinity and NaN are returned as they are.\<close>

fun Math_round :: "number \<Rightarrow> number" where
  "Math_round (Finite x) = Finite (of_int \<lfloor>x + 1 / 2\<rfloor>)"
| "Math_round Pos_Infinity = Pos_Infinity"
| "Math_round Neg_Infinity = Neg_Infinity"
| "Math_round NaN = NaN"

text \<open>The operand of an arithmetic operator is converted to a number: \<^verbatim>\<open>undefined\<close>
  becomes NaN.\<close>

fun to_number :: "number option \<Rightarrow> number" where
  "to_number None = NaN"
| "to_number (Some x) = x"

text \<open>A division that records whether it divided by zero: \<open>None\<close> when the divisor is
  zero, the quotient otherwise.\<close>

definition divide_number :: "number \<Rightarrow> number \<Rightarrow> number option" where
  "divide_number a b = (if b = Finite 0 then None else Some (num_div a b))"

text \<open>The decimal digits of a natural number, as a template literal prints \<^verbatim>\<open>Date.now()\<close>.\<close>

fun string_of_nat :: "nat \<Rightarrow> string" where
  "string_of_nat n =
     (if n < 10 then [''0123456789'' ! n]
      else string_of_nat (n div 10) @ [''0123456789'' ! (n mod 10)])"

declare string_of_nat.simps [simp del]

text \<open>\<^verbatim>\<open>products.find((p) => p.productId === id)\<close>: the first product with that
  identifier.\<close>

definition find_product :: "string \<Rightarrow> product list \<Rightarrow> product option" where
  "find_product pid ps = List.find (\<lambda>p. productId p = pid) ps"

text \<open>\<^verbatim>\<open>orders.find((o) => o.orderId === id)\<close>: the first order with that identifier.\<close>

definition find_order :: "string \<Rightarrow> order list \<Rightarrow> order option" where
  "find_order oid xs = List.find (\<lambda>x. orderId x = oid) xs"

text \<open>The handlers assign to the fields of the object that \<^verbatim>\<open>find\<close> returned, which is the
  array's own element: the mutated order takes the place of the first order with that
  identifier.\<close>

fun write_back :: "string \<Rightarrow> order \<Rightarrow> order list \<Rightarrow> order list" where
  "write_back oid new [] = []"
| "write_back oid new (x # xs) =
     (if orderId x = oid then new # xs else x # write_back oid new xs)"

section \<open>Creating an order\<close>

text \<open>
  The callback of \<^verbatim>\<open>items.map\<close> (lines 208 to 220): it looks the product up, throws when
  there is none, multiplies price and quantity (line 213) and adds the product to the
  running \<^verbatim>\<open>subtotal\<close> (line 214), both in double precision. The recursion threads the
  running subtotal; a throw leaves the whole map.
\<close>

fun build_items ::
  "product list \<Rightarrow> req_item list \<Rightarrow> number \<Rightarrow> string + (order_item list \<times> number)" where
  "build_items ps [] sub = Inr ([], sub)"
| "build_items ps (it # its) sub =
     (case find_product (req_productId it) ps of
        None \<Rightarrow> Inl (''Product '' @ req_productId it @ '' not found'')
      | Some p \<Rightarrow>
          (let item_total = num_mul (price p) (to_number (req_quantity it)) in
           case build_items ps its (num_add sub item_total) of
             Inl e \<Rightarrow> Inl e
           | Inr (rest, sub') \<Rightarrow>
               Inr (\<lparr>item_product = p, quantity = req_quantity it, itemTotal = item_total\<rparr> # rest,
                    sub')))"

text \<open>The QR string \<^verbatim>\<open>`${store.upiQrCode}&am=${total}&tn=${order.orderId}`\<close> is kept as the
  parts of the template, the number unprinted.\<close>

datatype qr_part = Lit string | Printed number

record upi_details =
  upi_upiId :: string
  upi_upiQrCode :: "qr_part list"

record create_response =
  created_order :: order
  upiDetails :: "upi_details option"

text \<open>
  \<^verbatim>\<open>POST /api/orders/create\<close> (lines 195 to 257). The three clock arguments are the reads
  at line 226 (\<open>t_id\<close>), line 234 (\<open>t_created\<close>) and line 235 (\<open>t_expires\<close>). The
  literal \<^verbatim>\<open>0.05\<close> is the double nearest to 5/100.
\<close>

definition createOrder ::
  "server_state \<Rightarrow> string option \<Rightarrow> req_item list option \<Rightarrow> string option \<Rightarrow>
   nat \<Rightarrow> nat \<Rightarrow> nat \<Rightarrow> (http_error + create_response) \<times> server_state" where
  "createOrder s sid req_items phone t_id t_created t_expires =
     (if falsy sid \<or> req_items = None \<or> req_items = Some [] then
        (Inl (400, ''Store ID and items required''), s)
      else
        case build_items (products s) (the req_items) (Finite 0) of
          Inl msg \<Rightarrow> (Inl (500, msg), s)
        | Inr (orderItems, sub) \<Rightarrow>
            (let tx = Math_round (num_mul sub (to_double (5 / 100)));
                 tot = num_add sub tx;
                 new = \<lparr>orderId = ''ORD'' @ string_of_nat t_id,
                        storeId = the sid,
                        customerPhone = or_default phone ''anonymous'',
                        items = orderItems,
                        subtotal = sub,
                        tax = tx,
                        total = tot,
                        status = Pending_payment,
                        createdAt = t_created,
                        expiresAt = t_expires + 10 * 60 * 1000,
                        paymentClaimedAt = None, utrLast4 = None, paidAmount = None,
                        verifiedAt = None, verifiedBy = None, verificationNotes = None,
                        rejectedAt = None, rejectedBy = None, rejectionReason = None,
                        completedAt = None\<rparr>;
                 upi = (case List.find (\<lambda>st. store_storeId st = the sid) (stores s) of
                          None \<Rightarrow> None
                        | Some st \<Rightarrow>
                            Some \<lparr>upi_upiId = upiId st,
                                  upi_upiQrCode =
                                    [Lit (upiQrCode st), Lit ''&am='', Printed tot,
                                     Lit ''&tn='', Lit (orderId new)]\<rparr>)
             in (Inr \<lparr>created_order = new, upiDetails = upi\<rparr>,
                 s\<lparr>orders := orders s @ [new]\<rparr>)))"

section \<open>Claiming a payment\<close>

record order_response =
  resp_message :: string
  resp_order :: order

text \<open>\<^verbatim>\<open>POST /api/orders/:orderId/claim-payment\<close> (lines 269 to 304).\<close>

definition claimPayment ::
  "server_state \<Rightarrow> string \<Rightarrow> string option \<Rightarrow> number option \<Rightarrow> nat \<Rightarrow>
   (http_error + order_response) \<times> server_state" where
  "claimPayment s oid utr paid now =
     (case find_order oid (orders s) of
        None \<Rightarrow> (Inl (404, ''Order not found''), s)
      | Some ord \<Rightarrow>
          if status ord \<noteq> Pending_payment then
            (Inl (400, ''Order already processed''), s)
          else
            (let new = ord\<lparr>status := Payment_claimed,
                           paymentClaimedAt := Some now,
                           utrLast4 := utr,
                           paidAmount := paid\<rparr>
             in (Inr \<lparr>resp_message = ''Payment claimed. Awaiting verification.'',
                      resp_order = new\<rparr>,
                 s\<lparr>orders := write_back oid new (orders s)\<rparr>)))"

section \<open>Cashier: verifying and rejecting\<close>

text \<open>
  \<^verbatim>\<open>POST /api/cashier/verify-order\<close> (lines 329 to 372). \<open>uuid\<close> is the result of
  \<^verbatim>\<open>uuidv4()\<close>; \<open>t_stamp\<close> is the clock read at line 343 or 348, \<open>t_log\<close> the one at
  line 360.
\<close>

definition verifyOrder ::
  "server_state \<Rightarrow> string \<Rightarrow> string option \<Rightarrow> bool \<Rightarrow> string option \<Rightarrow>
   string \<Rightarrow> nat \<Rightarrow> nat \<Rightarrow> (http_error + order_response) \<times> server_state" where
  "verifyOrder s oid cashier flag note uuid t_stamp t_log =
     (case find_order oid (orders s) of
        None \<Rightarrow> (Inl (404, ''Order not found''), s)
      | Some ord \<Rightarrow>
          (let new =
                 (if flag then
                    ord\<lparr>status := Verified,
                        verifiedAt := Some t_stamp,
                        verifiedBy := Some (or_default cashier ''cashier''),
                        verificationNotes := note\<rparr>
                  else
                    ord\<lparr>status := Rejected,
                        rejectedAt := Some t_stamp,
                        rejectedBy := Some (or_default cashier ''cashier''),
                        rejectionReason := note\<rparr>);
               entry = \<lparr>verificationId = uuid,
                        v_orderId = oid,
                        v_cashierId = or_default cashier ''cashier'',
                        v_verified = flag,
                        v_notes = note,
                        v_timestamp = t_log\<rparr>
           in (Inr \<lparr>resp_message =
                       (if flag then ''Order verified successfully'' else ''Order rejected''),
                    resp_order = new\<rparr>,
               s\<lparr>orders := write_back oid new (orders s),
                 verifications := verifications s @ [entry]\<rparr>)))"

section \<open>Cashier: scanning the exit code\<close>

record scan_response =
  scan_success :: bool
  scan_message :: string
  allowExit :: bool
  scan_order :: order

text \<open>\<^verbatim>\<open>POST /api/cashier/scan-exit-qr\<close> (lines 374 to 426).\<close>

definition scanExit ::
  "server_state \<Rightarrow> string \<Rightarrow> nat \<Rightarrow> (http_error + scan_response) \<times> server_state" where
  "scanExit s oid now =
     (case find_order oid (orders s) of
        None \<Rightarrow> (Inl (404, ''Order not found''), s)
      | Some ord \<Rightarrow>
          if status ord = Verified then
            (let new = ord\<lparr>status := Completed, completedAt := Some now\<rparr>
             in (Inr \<lparr>scan_success = True, scan_message = ''Customer can exit'',
                      allowExit = True, scan_order = new\<rparr>,
                 s\<lparr>orders := write_back oid new (orders s)\<rparr>))
          else if status ord = Payment_claimed then
            (Inr \<lparr>scan_success = False, scan_message = ''Payment not verified yet'',
                  allowExit = False, scan_order = ord\<rparr>, s)
          else if status ord = Pending_payment then
            (Inr \<lparr>scan_success = False, scan_message = ''Payment not completed'',
                  allowExit = False, scan_order = ord\<rparr>, s)
          else
            (Inr \<lparr>scan_success = False, scan_message = ''Invalid order status'',
                  allowExit = False, scan_order = ord\<rparr>, s))"

section \<open>Dashboard analytics\<close>

record analytics =
  totalOrders :: nat
  todayOrders :: nat
  completedOrders :: nat
  pendingOrders :: nat
  totalRevenue :: number
  todayRevenue :: number
  averageOrderValue :: number

text \<open>\<^verbatim>\<open>new Date().toISOString().split("T")[0]\<close> is the UTC calendar day of an instant, and
  \<^verbatim>\<open>o.createdAt.startsWith(today)\<close> compares two such days: a day is 86400000 ms.\<close>

definition utc_day :: "nat \<Rightarrow> nat" where
  "utc_day t = t div 86400000"

text \<open>\<^verbatim>\<open>xs.reduce((sum, o) => sum + o.total, 0)\<close>.\<close>

definition sum_total :: "order list \<Rightarrow> number" where
  "sum_total xs = foldl (\<lambda>sum x. num_add sum (total x)) (Finite 0) xs"

text \<open>Lines 433 to 436: the orders of one store when the query names a store, all orders
  otherwise.\<close>

definition storeOrders :: "server_state \<Rightarrow> string option \<Rightarrow> order list" where
  "storeOrders s sid =
     (case sid of
        None \<Rightarrow> orders s
      | Some i \<Rightarrow> if i = [] then orders s else filter (\<lambda>x. storeId x = i) (orders s))"

text \<open>The conditional expression of lines 460 to 463; the length of an array is an
  integer that a double holds exactly.\<close>

definition average_of :: "number \<Rightarrow> nat \<Rightarrow> number option" where
  "average_of revenue n =
     (if n > 0 then map_option Math_round (divide_number revenue (Finite (of_nat n)))
      else Some (Finite 0))"

text \<open>\<^verbatim>\<open>GET /api/analytics/dashboard\<close> (lines 430 to 466); \<open>now\<close> is the clock read at
  line 438. The result is \<open>None\<close> when the division divides by zero.\<close>

definition dashboard :: "server_state \<Rightarrow> string option \<Rightarrow> nat \<Rightarrow> analytics option" where
  "dashboard s sid now =
     (let store_orders = storeOrders s sid;
          today_orders = filter (\<lambda>x. utc_day (createdAt x) = utc_day now) store_orders;
          completed = filter (\<lambda>x. status x = Completed) store_orders;
          pending =
            filter (\<lambda>x. status x = Pending_payment \<or> status x = Payment_claimed) store_orders;
          revenue = sum_total completed;
          today_revenue = sum_total (filter (\<lambda>x. status x = Completed) today_orders)
      in case average_of revenue (length completed) of
           None \<Rightarrow> None
         | Some avg \<Rightarrow>
             Some \<lparr>totalOrders = length store_orders,
                   todayOrders = length today_orders,
                   completedOrders = length completed,
                   pendingOrders = length pending,
                   totalRevenue = revenue,
                   todayRevenue = today_revenue,
                   averageOrderValue = avg\<rparr>)"

section \<open>Sequences of lifecycle operations\<close>

text \<open>A request to one of the three handlers that mutate an existing order, with the
  values the handler reads from its environment.\<close>

datatype operation =
  ClaimPayment string "string option" "number option" nat
| VerifyOrder string "string option" bool "string option" string nat nat
| ScanExit string nat

fun apply_operation :: "server_state \<Rightarrow> operation \<Rightarrow> server_state" where
  "apply_operation s (ClaimPayment oid utr paid now) = snd (claimPayment s oid utr paid now)"
| "apply_operation s (VerifyOrder oid cashier flag note uuid t_stamp t_log) =
     snd (verifyOrder s oid cashier flag note uuid t_stamp t_log)"
| "apply_operation s (ScanExit oid now) = snd (scanExit s oid now)"

fun run :: "server_state \<Rightarrow> operation list \<Rightarrow> server_state" where
  "run s [] = s"
| "run s (x # xs) = run (apply_operation s x) xs"

fun is_verify :: "operation \<Rightarrow> bool" where
  "is_verify (VerifyOrder oid cashier flag note uuid t_stamp t_log) = True"
| "is_verify (ClaimPayment oid utr paid now) = False"
| "is_verify (ScanExit oid now) = False"

text \<open>The terminal statuses of the lifecycle.\<close>

fun terminal :: "status \<Rightarrow> bool" where
  "terminal Rejected = True"
| "terminal Completed = True"
| "terminal Pending_payment = False"
| "terminal Payment_claimed = False"
| "terminal Verified = False"

definition status_of :: "server_state \<Rightarrow> string \<Rightarrow> status option" where
  "status_of s oid = map_option status (find_order oid (orders s))"

section \<open>A small shop\<close>

text \<open>One product at price 100, one store, no orders yet.\<close>

definition shop_product :: product where
  "shop_product =
     \<lparr>productId = ''P1'', barcode = ''8901'', name = ''Tea'', brand = ''Acme'',
      category = ''Beverages'', price = Finite 100\<rparr>"

definition shop :: server_state where
  "shop =
     \<lparr>stores = [\<lparr>store_storeId = ''S1'', upiId = ''shop@upi'', upiQrCode = ''upi://pay?pa=shop@upi''\<rparr>],
      products = [shop_product],
      orders = [],
      verifications = []\<rparr>"

definition two_teas :: "req_item list" where
  "two_teas = [\<lparr>req_productId = ''P1'', req_quantity = Some (Finite 2)\<rparr>]"

text \<open>A request item for a product the shop does not sell.\<close>

definition nine :: "req_item list" where
  "nine = [\<lparr>req_productId = ''P9'', req_quantity = Some (Finite 1)\<rparr>]"

text \<open>The order the shop creates for two teas when every clock read gives \<open>t\<close>, and the
  same order at a later status.\<close>

definition tea_order :: "nat \<Rightarrow> order" where
  "tea_order t = created_order (projr (fst (createOrder shop (Some ''S1'') (Some two_teas) None t t t)))"

definition shop_with :: "status \<Rightarrow> server_state" where
  "shop_with st = shop\<lparr>orders := [(tea_order 5)\<lparr>status := st\<rparr>]\<rparr>"

text \<open>A grocer whose catalog prices rice at 4.6, lentils at 0.7 and salt at 0.2: a price
  read from the catalog file is the double nearest to the decimal written there. One order
  is for fifty units of rice, another for fourteen of lentils and one of salt.\<close>

definition rice :: product where
  "rice =
     \<lparr>productId = ''P2'', barcode = ''8902'', name = ''Rice'', brand = ''Acme'',
      category = ''Staples'', price = to_double (46 / 10)\<rparr>"

definition lentils :: product where
  "lentils =
     \<lparr>productId = ''P3'', barcode = ''8903'', name = ''Lentils'', brand = ''Acme'',
      category = ''Staples'', price = to_double (7 / 10)\<rparr>"

definition salt :: product where
  "salt =
     \<lparr>productId = ''P4'', barcode = ''8904'', name = ''Salt'', brand = ''Acme'',
      category = ''Staples'', price = to_double (2 / 10)\<rparr>"

definition grocer :: server_state where
  "grocer =
     \<lparr>stores = [], products = [rice, lentils, salt], orders = [], verifications = []\<rparr>"

definition fifty_rice :: "req_item list" where
  "fifty_rice = [\<lparr>req_productId = ''P2'', req_quantity = Some (Finite 50)\<rparr>]"

definition rice_order :: order where
  "rice_order =
     created_order (projr (fst (createOrder grocer (Some ''S1'') (Some fifty_rice) None 5 5 5)))"

definition lentils_and_salt :: "req_item list" where
  "lentils_and_salt =
     [\<lparr>req_productId = ''P3'', req_quantity = Some (Finite 14)\<rparr>,
      \<lparr>req_productId = ''P4'', req_quantity = Some (Finite 1)\<rparr>]"

definition mixed_order :: order where
  "mixed_order =
     created_order (projr (fst
       (createOrder grocer (Some ''S1'') (Some lentils_and_salt) None 5 5 5)))"

text \<open>A request item that names the tea and no quantity.\<close>

definition no_quantity :: "req_item list" where
  "no_quantity = [\<lparr>req_productId = ''P1'', req_quantity = None\<rparr>]"

text \<open>The shop after two creations in the same millisecond, both stored as \<^verbatim>\<open>ORD5\<close>,
  followed by a payment claim and a verification addressed to \<^verbatim>\<open>ORD5\<close>.\<close>

definition twins :: server_state where
  "twins =
     snd (verifyOrder
       (snd (claimPayment
         (snd (createOrder
           (snd (createOrder shop (Some ''S1'') (Some two_teas) None 5 5 5))
           (Some ''S1'') (Some two_teas) (Some ''+911234567890'') 5 5 5))
         ''ORD5'' (Some ''1234'') (Some (Finite 210)) 6))
       ''ORD5'' None True None ''u1'' 7 8)"

section \<open>Facts about the primitives\<close>

lemma floor_rat_divide_numeral:
  "\<lfloor>(numeral a :: rat) / numeral b\<rfloor> = numeral a div numeral b"
  by (metis floor_divide_of_int_eq of_int_numeral)

lemma Math_round_eq_round: "Math_round (Finite x) = Finite (of_int (round x))"
  by (simp add: round_def)

lemma find_order_orderId: "find_order oid xs = Some x \<Longrightarrow> orderId x = oid"
  by (auto simp: find_order_def find_Some_iff)

lemma length_write_back [simp]: "length (write_back oid new xs) = length xs"
  by (induction xs) auto

lemma find_order_write_back_same:
  "find_order oid xs = Some x \<Longrightarrow> orderId new = oid \<Longrightarrow>
   find_order oid (write_back oid new xs) = Some new"
  by (induction xs) (auto simp: find_order_def)

text \<open>Writing back touches one position only: the one \<^verbatim>\<open>find\<close> returned.\<close>

lemma write_back_nth:
  "find_order oid xs = Some x \<Longrightarrow> i < length xs \<Longrightarrow> xs ! i \<noteq> x \<Longrightarrow>
   write_back oid new xs ! i = xs ! i"
proof (induction xs arbitrary: i)
  case Nil
  then show ?case by simp
next
  case (Cons y ys)
  show ?case
  proof (cases "orderId y = oid")
    case True
    with Cons.prems have "y = x" by (simp add: find_order_def)
    with Cons.prems True show ?thesis by (cases i) auto
  next
    case False
    with Cons.prems have "find_order oid ys = Some x" by (simp add: find_order_def)
    with Cons False show ?thesis by (cases i) auto
  qed
qed

text \<open>Printing a clock reading loses nothing: two readings print alike only when they are
  the same reading.\<close>

lemma digit_inj:
  "a < 10 \<Longrightarrow> b < 10 \<Longrightarrow> ''0123456789'' ! a = ''0123456789'' ! b \<Longrightarrow> a = (b::nat)"
proof -
  assume "a < 10" "b < 10" "''0123456789'' ! a = ''0123456789'' ! b"
  moreover have "distinct ''0123456789''" by simp
  ultimately show ?thesis by (simp add: nth_eq_iff_index_eq)
qed

lemma string_of_nat_nonempty: "string_of_nat n \<noteq> []"
  by (subst string_of_nat.simps) simp

lemma string_of_nat_inj: "string_of_nat n = string_of_nat m \<Longrightarrow> n = m"
proof (induction n arbitrary: m rule: string_of_nat.induct)
  case (1 n)
  show ?case
  proof (cases "n < 10")
    case n: True
    show ?thesis
    proof (cases "m < 10")
      case True
      with n "1.prems" show ?thesis
        by (simp add: string_of_nat.simps [of n] string_of_nat.simps [of m] digit_inj)
    next
      case False
      with n "1.prems" string_of_nat_nonempty [of "m div 10"] show ?thesis
        by (simp add: string_of_nat.simps [of n] string_of_nat.simps [of m])
    qed
  next
    case n: False
    show ?thesis
    proof (cases "m < 10")
      case True
      with n "1.prems" string_of_nat_nonempty [of "n div 10"] show ?thesis
        by (simp add: string_of_nat.simps [of n] string_of_nat.simps [of m])
    next
      case False
      with n "1.prems" have pre: "string_of_nat (n div 10) = string_of_nat (m div 10)"
        and d: "''0123456789'' ! (n mod 10) = ''0123456789'' ! (m mod 10)"
        by (simp_all add: string_of_nat.simps [of n] string_of_nat.simps [of m])
      from "1.IH" [OF n pre] have q: "n div 10 = m div 10" .
      from d have r: "n mod 10 = m mod 10" by (intro digit_inj) simp_all
      from q r show ?thesis by (metis div_mult_mod_eq)
    qed
  qed
qed

text \<open>The map over the request items: a product that is missing makes it throw, whatever
  the running subtotal.\<close>

lemma build_items_unknown:
  "x \<in> set its \<Longrightarrow> find_product (req_productId x) ps = None \<Longrightarrow>
   \<exists>pid. find_product pid ps = None \<and>
     build_items ps its sub = Inl (''Product '' @ pid @ '' not found'')"
proof (induction its arbitrary: sub)
  case Nil
  then show ?case by simp
next
  case (Cons it its)
  show ?case
  proof (cases "find_product (req_productId it) ps")
    case None
    then show ?thesis by auto
  next
    case (Some p)
    with Cons.prems have "x \<in> set its" by auto
    from Cons.IH [OF this Cons.prems(2),
        of "num_add sub (num_mul (price p) (to_number (req_quantity it)))"]
    obtain pid where "find_product pid ps = None"
      and "build_items ps its (num_add sub (num_mul (price p) (to_number (req_quantity it))))
             = Inl (''Product '' @ pid @ '' not found'')" by blast
    with Some show ?thesis by (auto simp: Let_def)
  qed
qed

text \<open>When the map returns, every item carries the catalog's product and the quantity of
  the request line it was made from, its total is the double-precision product of the two,
  and the running subtotal has taken the item totals in, one double-precision addition
  after the other, in the order of the request.\<close>

lemma build_items_result:
  "build_items ps its sub = Inr (ois, sub') \<Longrightarrow>
   sub' = foldl (\<lambda>acc i. num_add acc (itemTotal i)) sub ois \<and>
   map (\<lambda>i. (Some (item_product i), quantity i)) ois =
     map (\<lambda>it. (find_product (req_productId it) ps, req_quantity it)) its \<and>
   list_all (\<lambda>i. itemTotal i = num_mul (price (item_product i)) (to_number (quantity i))) ois"
proof (induction its arbitrary: sub ois)
  case Nil
  then show ?case by auto
next
  case (Cons it its)
  from Cons.prems obtain p where p: "find_product (req_productId it) ps = Some p"
    by (cases "find_product (req_productId it) ps") auto
  let ?t = "num_mul (price p) (to_number (req_quantity it))"
  from Cons.prems p obtain rest where
    r: "build_items ps its (num_add sub ?t) = Inr (rest, sub')"
    and o: "ois = \<lparr>item_product = p, quantity = req_quantity it, itemTotal = ?t\<rparr> # rest"
    by (auto simp: Let_def split: sum.splits)
  from Cons.IH [OF r] p o show ?case by simp
qed

text \<open>The item totals are the products, so the subtotal is the left-to-right sum of the
  products.\<close>

lemma foldl_item_totals:
  "list_all (\<lambda>i. itemTotal i = num_mul (price (item_product i)) (to_number (quantity i))) ois \<Longrightarrow>
   foldl (\<lambda>acc i. num_add acc (itemTotal i)) sub ois =
   foldl (\<lambda>acc i. num_add acc (num_mul (price (item_product i)) (to_number (quantity i))))
     sub ois"
  by (induction ois arbitrary: sub) auto

lemma sum_total_foldl: "sum_total xs = foldl num_add (Finite 0) (map total xs)"
  by (simp add: sum_total_def foldl_map)

text \<open>The guard \<open>n > 0\<close> keeps the divisor away from zero: the average is always a
  number.\<close>

lemma average_of_defined:
  "average_of revenue n =
     Some (if n > 0 then Math_round (num_div revenue (Finite (of_nat n))) else Finite 0)"
  by (simp add: average_of_def divide_number_def)

text \<open>The arithmetic of the examples, each operation rounded to the nearest double:
  the literal \<^verbatim>\<open>0.05\<close>, two teas at 100, and fifty units of rice at 4.6.\<close>

lemmas double_eval = to_double_def binary_exponent_def round_half_even_def bit_length.simps
  Let_def floor_rat_divide_numeral pow2_def

lemma tea_arith:
  "num_mul (Finite 100) (Finite 2) = Finite 200"
  "num_add (Finite 0) (Finite 200) = Finite 200"
  "to_double (1 / 20) = Finite (3602879701896397 / 72057594037927936)"
  "num_mul (Finite 200) (Finite (3602879701896397 / 72057594037927936)) = Finite 10"
  "num_add (Finite 200) (Finite 10) = Finite 210"
  "num_add (Finite 0) (Finite 210) = Finite 210"
  "num_div (Finite 210) (Finite 1) = Finite 210"
  by (simp_all add: double_eval split del: if_split)

lemma rice_arith:
  "to_double (23 / 5) = Finite (2589569785738035 / 562949953421312)"
  "num_mul (Finite (2589569785738035 / 562949953421312)) (Finite 50)
     = Finite (8092405580431359 / 35184372088832)"
  "num_add (Finite 0) (Finite (8092405580431359 / 35184372088832))
     = Finite (8092405580431359 / 35184372088832)"
  "num_mul (Finite (8092405580431359 / 35184372088832))
     (Finite (3602879701896397 / 72057594037927936)) = Finite (23 / 2)"
  "num_add (Finite (8092405580431359 / 35184372088832)) (Finite 12)
     = Finite (8514618045497343 / 35184372088832)"
  by (simp_all add: double_eval split del: if_split)

text \<open>Evaluation of the small shop.\<close>

lemma mixed_arith:
  "to_double (7 / 10) = Finite (3152519739159347 / 4503599627370496)"
  "to_double (1 / 5) = Finite (3602879701896397 / 18014398509481984)"
  "num_mul (Finite (3152519739159347 / 4503599627370496)) (Finite 14)
     = Finite (5516909543528857 / 562949953421312)"
  "num_add (Finite 0) (Finite (5516909543528857 / 562949953421312))
     = Finite (5516909543528857 / 562949953421312)"
  "num_mul (Finite (3602879701896397 / 18014398509481984)) (Finite 1)
     = Finite (3602879701896397 / 18014398509481984)"
  "num_add (Finite (5516909543528857 / 562949953421312))
     (Finite (3602879701896397 / 18014398509481984))
     = Finite (5629499534213119 / 562949953421312)"
  "num_mul (Finite (5629499534213119 / 562949953421312))
     (Finite (3602879701896397 / 72057594037927936))
     = Finite (9007199254740991 / 18014398509481984)"
  "num_add (Finite (5629499534213119 / 562949953421312)) (Finite 0)
     = Finite (5629499534213119 / 562949953421312)"
  by (simp_all add: double_eval split del: if_split)

lemmas shop_defs = tea_order_def createOrder_def shop_def two_teas_def shop_product_def
  string_of_nat.simps Let_def shop_with_def floor_rat_divide_numeral
  find_product_def find_order_def tea_arith

lemmas num_simps = num_add.simps num_mul.simps num_div.simps

section \<open>The lifecycle and the terminal statuses\<close>

text \<open>One operation other than a verification leaves an order at a terminal status as
  it is: \<open>claimPayment\<close> writes only to an order it found at \<open>Pending_payment\<close>,
  \<open>scanExit\<close> only to one it found at \<open>Verified\<close>.\<close>

lemma apply_non_verify_terminal:
  assumes "\<not> is_verify x" "i < length (orders s)" "terminal (status (orders s ! i))"
  shows "length (orders (apply_operation s x)) = length (orders s) \<and>
         orders (apply_operation s x) ! i = orders s ! i"
proof (cases x)
  case (ClaimPayment oid utr paid now)
  show ?thesis
  proof (cases "find_order oid (orders s)")
    case None
    with ClaimPayment show ?thesis by (simp add: claimPayment_def)
  next
    case (Some ord)
    show ?thesis
    proof (cases "status ord = Pending_payment")
      case True
      with assms(3) have "orders s ! i \<noteq> ord" by auto
      with Some assms(2) True ClaimPayment show ?thesis
        by (simp add: claimPayment_def Let_def write_back_nth)
    next
      case False
      with Some ClaimPayment show ?thesis by (simp add: claimPayment_def)
    qed
  qed
next
  case (VerifyOrder oid cashier flag nt uuid t_stamp t_log)
  with assms(1) show ?thesis by simp
next
  case (ScanExit oid now)
  show ?thesis
  proof (cases "find_order oid (orders s)")
    case None
    with ScanExit show ?thesis by (simp add: scanExit_def)
  next
    case (Some ord)
    show ?thesis
    proof (cases "status ord = Verified")
      case True
      with assms(3) have "orders s ! i \<noteq> ord" by auto
      with Some assms(2) True ScanExit show ?thesis
        by (simp add: scanExit_def Let_def write_back_nth)
    next
      case False
      with Some ScanExit show ?thesis by (simp add: scanExit_def)
    qed
  qed
qed

text \<open>
  Claim C1, as stated: once an order is \<open>rejected\<close> or \<open>completed\<close>, no sequence of
  \<open>claimPayment\<close>, \<open>verifyOrder\<close> and \<open>scanExit\<close> operations changes its status.
  The code does not do this: \<open>verifyOrder\<close> has no status guard, so a verification of a
  rejected order makes it \<open>verified\<close>.
\<close>

theorem verify_leaves_terminal_counterexample:
  "terminal Rejected \<and> status_of (shop_with Rejected) ''ORD5'' = Some Rejected \<and>
   status_of (run (shop_with Rejected) [VerifyOrder ''ORD5'' None True None ''u1'' 7 8]) ''ORD5''
     = Some Verified"
  by (simp add: status_of_def verifyOrder_def shop_defs del: num_simps)

text \<open>
  Claim C1, amended: for every order and every sequence of \<open>claimPayment\<close> and
  \<open>scanExit\<close> operations, once the order's status is \<open>rejected\<close> or \<open>completed\<close>,
  no operation changes its status, nor any other field of it, again. The order is taken by
  its position in the repository, so the statement covers every stored order.
\<close>

theorem terminal_status_stable:
  assumes "i < length (orders s)" "terminal (status (orders s ! i))"
    and "list_all (\<lambda>x. \<not> is_verify x) ops"
  shows "length (orders (run s ops)) = length (orders s) \<and>
         orders (run s ops) ! i = orders s ! i"
  using assms
proof (induction ops arbitrary: s)
  case Nil
  then show ?case by simp
next
  case (Cons x xs)
  from Cons.prems have nv: "\<not> is_verify x" and rest: "list_all (\<lambda>x. \<not> is_verify x) xs"
    by simp_all
  from apply_non_verify_terminal [OF nv Cons.prems(1) Cons.prems(2)]
  have len: "length (orders (apply_operation s x)) = length (orders s)"
    and same: "orders (apply_operation s x) ! i = orders s ! i" by simp_all
  from Cons.IH [of "apply_operation s x"] len same Cons.prems(1,2) rest
  show ?case by simp
qed

theorem terminal_status_stable_witness:
  "0 < length (orders (shop_with Completed)) \<and>
   terminal (status (orders (shop_with Completed) ! 0)) \<and>
   list_all (\<lambda>x. \<not> is_verify x) [ScanExit ''ORD5'' 9, ClaimPayment ''ORD5'' None None 10] \<and>
   orders (run (shop_with Completed) [ScanExit ''ORD5'' 9, ClaimPayment ''ORD5'' None None 10]) ! 0
     = orders (shop_with Completed) ! 0"
  using terminal_status_stable
    [of 0 "shop_with Completed" "[ScanExit ''ORD5'' 9, ClaimPayment ''ORD5'' None None 10]"]
  by (simp add: shop_with_def)

section \<open>Creating an order: failure, totals, expiry, identifiers\<close>

text \<open>
  Claim C2, as stated: every \<open>createOrder\<close> request whose item list references a product
  identifier that is not in the catalog persists no order and reports a product-not-found
  failure. The check of line 199 comes first: a request without a store identifier is
  answered "Store ID and items required", whatever its items are.
\<close>

theorem createOrder_unknown_product_counterexample:
  "find_product ''P9'' (products shop) = None \<and>
   createOrder shop None (Some nine) None 5 5 5 =
     (Inl (400, ''Store ID and items required''), shop)"
  by (simp add: createOrder_def shop_def shop_product_def find_product_def nine_def)

text \<open>
  Claim C2, amended: for every \<open>createOrder\<close> request whose item list references at least
  one product identifier not present in the catalog, no order is persisted (the state is
  unchanged); when the request carries a store identifier the operation reports a
  product-not-found failure that names a product missing from the catalog, and when it
  carries none the operation reports the missing store identifier instead.
\<close>

theorem createOrder_unknown_product:
  assumes "x \<in> set its" "find_product (req_productId x) (products s) = None"
  shows "\<exists>pid. find_product pid (products s) = None \<and>
           createOrder s sid (Some its) phone t_id t_created t_expires =
             (if falsy sid then (Inl (400, ''Store ID and items required''), s)
              else (Inl (500, ''Product '' @ pid @ '' not found''), s))"
proof -
  from build_items_unknown [OF assms, of "Finite 0"]
  obtain pid where p: "find_product pid (products s) = None"
    and b: "build_items (products s) its (Finite 0) = Inl (''Product '' @ pid @ '' not found'')"
    by blast
  from assms(1) have "its \<noteq> []" by auto
  with b have "createOrder s sid (Some its) phone t_id t_created t_expires =
             (if falsy sid then (Inl (400, ''Store ID and items required''), s)
              else (Inl (500, ''Product '' @ pid @ '' not found''), s))"
    by (simp add: createOrder_def)
  with p show ?thesis by blast
qed

theorem createOrder_unknown_product_witness:
  "\<lparr>req_productId = ''P9'', req_quantity = Some (Finite 1)\<rparr> \<in> set (two_teas @ nine) \<and>
   find_product ''P9'' (products shop) = None \<and>
   createOrder shop (Some ''S1'') (Some (two_teas @ nine)) None 5 5 5 =
     (Inl (500, ''Product P9 not found''), shop)"
  using createOrder_unknown_product
    [of "\<lparr>req_productId = ''P9'', req_quantity = Some (Finite 1)\<rparr>" "two_teas @ nine" shop
        "Some ''S1''" None 5 5 5]
  by (simp add: createOrder_def shop_def shop_product_def find_product_def nine_def
      two_teas_def tea_arith del: num_simps)

text \<open>
  Claim C3, as stated: for every successfully created order the subtotal is exactly the sum
  over its items of price times quantity, and the tax is exactly the subtotal times 0.05,
  rounded. The code computes in doubles. For fifty units at the catalog price 4.6 the stored
  subtotal is 229.99999999999997 (8092405580431359 / 2^45), which is not fifty times the
  stored price, and the stored tax is 12, while that subtotal times 5/100 rounds to 11.
\<close>

theorem createOrder_totals_counterexample:
  "orders (snd (createOrder grocer (Some ''S1'') (Some fifty_rice) None 5 5 5)) = [rice_order] \<and>
   map item_product (items rice_order) = [rice] \<and>
   map quantity (items rice_order) = [Some (Finite 50)] \<and>
   price rice = Finite (2589569785738035 / 562949953421312) \<and>
   subtotal rice_order = Finite (8092405580431359 / 35184372088832) \<and>
   (2589569785738035 / 562949953421312 :: rat) * 50 \<noteq> 8092405580431359 / 35184372088832 \<and>
   tax rice_order = Finite 12 \<and>
   round ((8092405580431359 / 35184372088832 :: rat) * (5 / 100)) = 11"
  by (simp add: rice_order_def createOrder_def grocer_def rice_def fifty_rice_def
      find_product_def string_of_nat.simps Let_def rice_arith tea_arith
      floor_rat_divide_numeral round_def del: num_simps)

text \<open>
  Claim C3, amended: for every successfully created order, the items are the request's
  lines with the catalog's product for each; the subtotal is the sum over its items of price
  times quantity taken in double-precision arithmetic, each product rounded to the nearest
  double and added to the running sum, left to right, with a rounding after each addition;
  the tax is \<^verbatim>\<open>Math.round\<close> of the double-precision product of the subtotal and the
  double nearest to 0.05; the total is the double-precision sum of subtotal and tax; and the
  order persisted is the order returned.
\<close>

theorem createOrder_totals:
  assumes "createOrder s sid req_items phone t_id t_created t_expires = (Inr r, s')"
  shows "\<exists>its. req_items = Some its \<and>
           map (\<lambda>i. (Some (item_product i), quantity i)) (items (created_order r)) =
             map (\<lambda>it. (find_product (req_productId it) (products s), req_quantity it)) its \<and>
           subtotal (created_order r) =
             foldl (\<lambda>acc i. num_add acc (num_mul (price (item_product i)) (to_number (quantity i))))
               (Finite 0) (items (created_order r)) \<and>
           tax (created_order r) =
             Math_round (num_mul (subtotal (created_order r)) (to_double (5 / 100))) \<and>
           total (created_order r) = num_add (subtotal (created_order r)) (tax (created_order r)) \<and>
           orders s' = orders s @ [created_order r]"
proof -
  from assms have ok: "\<not> (falsy sid \<or> req_items = None \<or> req_items = Some [])"
    by (auto simp: createOrder_def split: if_splits)
  then obtain its where its: "req_items = Some its" by auto
  from assms ok its obtain ois sub where
    b: "build_items (products s) its (Finite 0) = Inr (ois, sub)"
    by (cases "build_items (products s) its (Finite 0)") (auto simp: createOrder_def)
  from build_items_result [OF b]
  have sub: "sub = foldl (\<lambda>acc i. num_add acc (itemTotal i)) (Finite 0) ois"
    and req: "map (\<lambda>i. (Some (item_product i), quantity i)) ois =
                map (\<lambda>it. (find_product (req_productId it) (products s), req_quantity it)) its"
    and tot: "list_all (\<lambda>i. itemTotal i =
                num_mul (price (item_product i)) (to_number (quantity i))) ois"
    by simp_all
  from sub foldl_item_totals [OF tot, of "Finite 0"]
  have sub': "sub = foldl (\<lambda>acc i. num_add acc
                (num_mul (price (item_product i)) (to_number (quantity i)))) (Finite 0) ois"
    by simp
  from assms ok its b have "items (created_order r) = ois" "subtotal (created_order r) = sub"
    "tax (created_order r) = Math_round (num_mul sub (to_double (5 / 100)))"
    "total (created_order r) = num_add sub (Math_round (num_mul sub (to_double (5 / 100))))"
    "orders s' = orders s @ [created_order r]"
    by (auto simp: createOrder_def Let_def)
  with its req sub' show ?thesis by simp
qed

theorem createOrder_totals_witness:
  "createOrder shop (Some ''S1'') (Some two_teas) None 5 5 5 =
     (Inr (projr (fst (createOrder shop (Some ''S1'') (Some two_teas) None 5 5 5))),
      snd (createOrder shop (Some ''S1'') (Some two_teas) None 5 5 5)) \<and>
   map quantity (items (tea_order 5)) = [Some (Finite 2)] \<and>
   subtotal (tea_order 5) = Finite 200 \<and> tax (tea_order 5) = Finite 10 \<and>
   total (tea_order 5) = Finite 210"
  using createOrder_totals [of shop "Some ''S1''" "Some two_teas" None 5 5 5
      "projr (fst (createOrder shop (Some ''S1'') (Some two_teas) None 5 5 5))"
      "snd (createOrder shop (Some ''S1'') (Some two_teas) None 5 5 5)"]
  by (simp add: shop_defs del: num_simps)

text \<open>Fourteen units at 0.7 and one at 0.2: the stored subtotal is 9.999999999999998, its
  product with 0.05 is 0.49999999999999994, so the stored tax is 0 and the stored total is
  the subtotal.\<close>

lemma createOrder_decimal_cart:
  "subtotal mixed_order = Finite (5629499534213119 / 562949953421312) \<and>
   tax mixed_order = Finite 0 \<and>
   total mixed_order = Finite (5629499534213119 / 562949953421312)"
  by (simp add: mixed_order_def createOrder_def grocer_def rice_def lentils_def salt_def
      lentils_and_salt_def find_product_def string_of_nat.simps Let_def mixed_arith tea_arith
      floor_rat_divide_numeral del: num_simps)

text \<open>A request line without a quantity is not refused: the product of the price and
  \<^verbatim>\<open>undefined\<close> is NaN, and the order is stored with NaN for its three amounts.\<close>

lemma createOrder_missing_quantity:
  "map (\<lambda>x. (subtotal x, tax x, total x))
     (orders (snd (createOrder shop (Some ''S1'') (Some no_quantity) None 5 5 5)))
   = [(NaN, NaN, NaN)]"
  by (simp add: createOrder_def shop_def shop_product_def no_quantity_def find_product_def
      Let_def tea_arith)

text \<open>What a successful creation writes into the fresh order: the status, the
  identifier printed from the first clock read, the creation time from the second and the
  expiry from the third.\<close>

lemma createOrder_fresh:
  assumes "createOrder s sid req_items phone t_id t_created t_expires = (Inr r, s')"
  shows "status (created_order r) = Pending_payment \<and>
         orderId (created_order r) = ''ORD'' @ string_of_nat t_id \<and>
         createdAt (created_order r) = t_created \<and>
         expiresAt (created_order r) = t_expires + 600000"
  using assms
  by (auto simp: createOrder_def Let_def split: if_splits sum.splits)

text \<open>Two created orders share an identifier exactly when the two clock reads of line 226
  returned the same millisecond.\<close>

lemma createOrder_ids_equal_iff:
  assumes "createOrder s1 sid1 items1 phone1 t_id1 t_created1 t_expires1 = (Inr r1, s1')"
    and "createOrder s2 sid2 items2 phone2 t_id2 t_created2 t_expires2 = (Inr r2, s2')"
  shows "orderId (created_order r1) = orderId (created_order r2) \<longleftrightarrow> t_id1 = t_id2"
  using createOrder_fresh [OF assms(1)] createOrder_fresh [OF assms(2)]
  by (auto dest: string_of_nat_inj)

text \<open>
  Claim C7: every order returned by a successful \<open>createOrder\<close> has status
  \<open>pending_payment\<close> and an expiry exactly 10 minutes (600000 ms) after its creation
  timestamp. The status is as claimed. The expiry is not: line 234 reads the clock for
  \<^verbatim>\<open>createdAt\<close> and line 235 reads it again for \<^verbatim>\<open>expiresAt\<close>, so when the
  millisecond changes between the two reads (here from 1000 to 1001) the expiry is
  one millisecond more than 10 minutes after the creation timestamp.
\<close>

theorem createOrder_expiry_clock_tick:
  "createdAt (created_order (projr (fst
      (createOrder shop (Some ''S1'') (Some two_teas) None 5 1000 1001)))) = 1000 \<and>
   expiresAt (created_order (projr (fst
      (createOrder shop (Some ''S1'') (Some two_teas) None 5 1000 1001)))) = 601001 \<and>
   status (created_order (projr (fst
      (createOrder shop (Some ''S1'') (Some two_teas) None 5 1000 1001)))) = Pending_payment"
  by (simp add: shop_defs del: num_simps)

text \<open>
  Claim C9: two distinct orders produced by \<open>createOrder\<close> never have the same
  identifier. The identifier is \<^verbatim>\<open>`ORD${Date.now()}`\<close>: two creations whose clock reads
  fall in the same millisecond store two orders with one identifier, and \<^verbatim>\<open>find\<close>
  then reaches only the first.
\<close>

theorem createOrder_same_millisecond:
  "map orderId (orders (snd (createOrder
      (snd (createOrder shop (Some ''S1'') (Some two_teas) None 5 5 5))
      (Some ''S1'') (Some two_teas) (Some ''+911234567890'') 5 5 5)))
   = [''ORD5'', ''ORD5'']"
  by (simp add: shop_defs del: num_simps)

section \<open>Claiming, verifying, leaving\<close>

text \<open>
  Claim C6: for every existing order whose status is not \<open>pending_payment\<close>,
  \<open>claimPayment\<close> fails with the "Order already processed" conflict and leaves the
  order, and the rest of the state, unchanged.
\<close>

theorem claimPayment_conflict:
  assumes "find_order oid (orders s) = Some ord" "status ord \<noteq> Pending_payment"
  shows "claimPayment s oid utr paid now = (Inl (400, ''Order already processed''), s)"
  using assms by (simp add: claimPayment_def)

theorem claimPayment_conflict_witness:
  "find_order ''ORD5'' (orders (shop_with Payment_claimed)) =
     Some ((tea_order 5)\<lparr>status := Payment_claimed\<rparr>) \<and>
   status ((tea_order 5)\<lparr>status := Payment_claimed\<rparr>) \<noteq> Pending_payment \<and>
   claimPayment (shop_with Payment_claimed) ''ORD5'' (Some ''1234'') (Some (Finite 210)) 9
     = (Inl (400, ''Order already processed''), shop_with Payment_claimed)"
  using claimPayment_conflict [of "''ORD5''" "shop_with Payment_claimed"
      "(tea_order 5)\<lparr>status := Payment_claimed\<rparr>" "Some ''1234''" "Some (Finite 210)" 9]
  by (simp add: shop_defs del: num_simps)

text \<open>
  Claim C5: for every existing order, whatever its status, a \<open>verifyOrder\<close> call appends
  exactly one record to the verification log, and the record's \<open>verified\<close> field is the
  flag the caller supplied.
\<close>

theorem verifyOrder_appends_record:
  assumes "find_order oid (orders s) = Some ord"
  shows "\<exists>r s' e. verifyOrder s oid cashier flag nt uuid t_stamp t_log = (Inr r, s') \<and>
           verifications s' = verifications s @ [e] \<and>
           v_verified e = flag \<and> v_orderId e = oid"
  using assms by (simp add: verifyOrder_def Let_def)

theorem verifyOrder_appends_record_witness:
  "find_order ''ORD5'' (orders (shop_with Completed)) =
     Some ((tea_order 5)\<lparr>status := Completed\<rparr>) \<and>
   map v_verified (verifications
     (snd (verifyOrder (shop_with Completed) ''ORD5'' None False None ''u1'' 7 8))) = [False]"
  using verifyOrder_appends_record [of "''ORD5''" "shop_with Completed"
      "(tea_order 5)\<lparr>status := Completed\<rparr>" None False None "''u1''" 7 8]
  by (simp add: shop_defs verifyOrder_def del: num_simps)

text \<open>
  Claim C10: \<open>verifyOrder\<close> writes the stamps of the branch it takes and leaves the
  other branch's stamps as they were: a call with verified = true sets the verification
  stamps and keeps the rejection time, rejector and reason; a call with verified = false
  sets the rejection stamps and keeps the verification stamps; after a rejection followed
  by a verification the order carries both sets of stamps.
\<close>

theorem verifyOrder_keeps_other_stamps:
  assumes "find_order oid (orders s) = Some ord"
  shows "(\<exists>v. find_order oid (orders (snd (verifyOrder s oid cashier True nt uuid t_stamp t_log)))
              = Some v \<and>
            verifiedAt v = Some t_stamp \<and> verifiedBy v = Some (or_default cashier ''cashier'') \<and>
            verificationNotes v = nt \<and>
            rejectedAt v = rejectedAt ord \<and> rejectedBy v = rejectedBy ord \<and>
            rejectionReason v = rejectionReason ord) \<and>
         (\<exists>w. find_order oid (orders (snd (verifyOrder s oid cashier False nt uuid t_stamp t_log)))
              = Some w \<and>
            rejectedAt w = Some t_stamp \<and> rejectedBy w = Some (or_default cashier ''cashier'') \<and>
            rejectionReason w = nt \<and>
            verifiedAt w = verifiedAt ord \<and> verifiedBy w = verifiedBy ord \<and>
            verificationNotes w = verificationNotes ord) \<and>
         (\<exists>b. find_order oid (orders (snd (verifyOrder
                 (snd (verifyOrder s oid cashier False nt uuid t_stamp t_log))
                 oid cashier2 True nt2 uuid2 t_stamp2 t_log2))) = Some b \<and>
            status b = Verified \<and>
            rejectedAt b = Some t_stamp \<and> rejectedBy b = Some (or_default cashier ''cashier'') \<and>
            rejectionReason b = nt \<and>
            verifiedAt b = Some t_stamp2 \<and> verifiedBy b = Some (or_default cashier2 ''cashier'') \<and>
            verificationNotes b = nt2)"
proof -
  from assms have id: "orderId ord = oid" by (rule find_order_orderId)
  let ?v = "ord\<lparr>status := Verified, verifiedAt := Some t_stamp,
                 verifiedBy := Some (or_default cashier ''cashier''), verificationNotes := nt\<rparr>"
  let ?w = "ord\<lparr>status := Rejected, rejectedAt := Some t_stamp,
                 rejectedBy := Some (or_default cashier ''cashier''), rejectionReason := nt\<rparr>"
  let ?b = "?w\<lparr>status := Verified, verifiedAt := Some t_stamp2,
                 verifiedBy := Some (or_default cashier2 ''cashier''), verificationNotes := nt2\<rparr>"
  let ?s1 = "snd (verifyOrder s oid cashier False nt uuid t_stamp t_log)"
  from id have "orderId ?v = oid" "orderId ?w = oid" "orderId ?b = oid" by simp_all
  from assms this(1)
  have v: "find_order oid (orders (snd (verifyOrder s oid cashier True nt uuid t_stamp t_log)))
             = Some ?v"
    by (simp add: verifyOrder_def Let_def find_order_write_back_same)
  from assms \<open>orderId ?w = oid\<close> have w: "find_order oid (orders ?s1) = Some ?w"
    by (simp add: verifyOrder_def Let_def find_order_write_back_same)
  from w \<open>orderId ?b = oid\<close>
  have b: "find_order oid (orders (snd (verifyOrder ?s1 oid cashier2 True nt2 uuid2
             t_stamp2 t_log2))) = Some ?b"
    by (simp add: verifyOrder_def [of ?s1] Let_def find_order_write_back_same)
  from v w b show ?thesis by simp
qed

theorem verifyOrder_keeps_other_stamps_witness:
  "find_order ''ORD5'' (orders (shop_with Payment_claimed)) =
     Some ((tea_order 5)\<lparr>status := Payment_claimed\<rparr>) \<and>
   map_option rejectedAt (find_order ''ORD5'' (orders (snd (verifyOrder
      (snd (verifyOrder (shop_with Payment_claimed) ''ORD5'' None False (Some ''short'') ''u1'' 7 8))
      ''ORD5'' (Some ''c2'') True None ''u2'' 9 10)))) = Some (Some 7) \<and>
   map_option verifiedAt (find_order ''ORD5'' (orders (snd (verifyOrder
      (snd (verifyOrder (shop_with Payment_claimed) ''ORD5'' None False (Some ''short'') ''u1'' 7 8))
      ''ORD5'' (Some ''c2'') True None ''u2'' 9 10)))) = Some (Some 9)"
  using verifyOrder_keeps_other_stamps [of "''ORD5''" "shop_with Payment_claimed"
      "(tea_order 5)\<lparr>status := Payment_claimed\<rparr>" None "Some ''short''" "''u1''" 7 8
      "Some ''c2''" None "''u2''" 9 10]
  by (auto simp add: shop_defs simp del: num_simps)

text \<open>For the order that the lookup returns, that is the first order stored under the
  identifier, \<open>scanExit\<close> answers allowExit = true exactly when that order's status was
  \<open>verified\<close>; it then makes the order \<open>completed\<close> and stamps the completion time, and
  a later \<open>scanExit\<close> answers allowExit = false and changes nothing. When the status was
  not \<open>verified\<close> the call changes nothing either.\<close>

lemma scanExit_found:
  assumes "find_order oid (orders s) = Some ord"
  shows "\<exists>r s'. scanExit s oid now = (Inr r, s') \<and>
           (allowExit r \<longleftrightarrow> status ord = Verified) \<and>
           (if status ord = Verified then
              find_order oid (orders s') =
                Some (ord\<lparr>status := Completed, completedAt := Some now\<rparr>) \<and>
              (\<exists>r2. scanExit s' oid later = (Inr r2, s') \<and> \<not> allowExit r2)
            else s' = s)"
proof (cases "status ord = Verified")
  case True
  let ?new = "ord\<lparr>status := Completed, completedAt := Some now\<rparr>"
  let ?s' = "s\<lparr>orders := write_back oid ?new (orders s)\<rparr>"
  from assms have id: "orderId ?new = oid" by (simp add: find_order_orderId)
  from find_order_write_back_same [OF assms id]
  have found: "find_order oid (orders ?s') = Some ?new" by simp
  from assms True have first: "scanExit s oid now =
      (Inr \<lparr>scan_success = True, scan_message = ''Customer can exit'',
            allowExit = True, scan_order = ?new\<rparr>, ?s')"
    by (simp add: scanExit_def Let_def)
  from found have second: "scanExit ?s' oid later =
      (Inr \<lparr>scan_success = False, scan_message = ''Invalid order status'',
            allowExit = False, scan_order = ?new\<rparr>, ?s')"
    by (simp add: scanExit_def)
  from first second found True show ?thesis by simp
next
  case False
  with assms show ?thesis by (simp add: scanExit_def)
qed

text \<open>
  Claim C4: for every existing order, \<open>scanExit\<close> answers allowExit = true if and only if
  that order's status was \<open>verified\<close> just before the call, and then makes it
  \<open>completed\<close>. The code does this for the first order stored under the identifier
  only. After two creations in the same millisecond two orders are stored as \<^verbatim>\<open>ORD5\<close>;
  once the first is verified, \<open>scanExit\<close> for \<^verbatim>\<open>ORD5\<close> answers allowExit = true
  although the second order is \<open>pending_payment\<close>, and that order stays
  \<open>pending_payment\<close>.
\<close>

theorem scanExit_shadowed_order:
  "map orderId (orders twins) = [''ORD5'', ''ORD5''] \<and>
   map status (orders twins) = [Verified, Pending_payment] \<and>
   allowExit (projr (fst (scanExit twins ''ORD5'' 9))) \<and>
   map status (orders (snd (scanExit twins ''ORD5'' 9))) = [Completed, Pending_payment]"
  by (simp add: twins_def shop_defs claimPayment_def verifyOrder_def scanExit_def
      del: num_simps)

section \<open>The dashboard never divides by zero\<close>

text \<open>
  Claim C8: for every repository state the dashboard computation performs no division by
  zero (it always returns its metrics), and the average order value is the total revenue
  divided by the number of completed orders, rounded, when that number is positive, and 0
  when there is no completed order. The total revenue is the running double-precision sum
  of the totals of the completed orders.
\<close>

theorem dashboard_average:
  "\<exists>a. dashboard s sid now = Some a \<and>
     completedOrders a = length (filter (\<lambda>x. status x = Completed) (storeOrders s sid)) \<and>
     totalRevenue a =
       foldl num_add (Finite 0)
         (map total (filter (\<lambda>x. status x = Completed) (storeOrders s sid))) \<and>
     averageOrderValue a =
       (if completedOrders a > 0
        then Math_round (num_div (totalRevenue a) (Finite (of_nat (completedOrders a))))
        else Finite 0)"
  by (simp add: dashboard_def Let_def average_of_defined sum_total_foldl)

theorem dashboard_average_witness:
  "map_option averageOrderValue (dashboard (shop_with Completed) None 0) = Some (Finite 210) \<and>
   map_option averageOrderValue (dashboard shop (Some ''S1'') 0) = Some (Finite 0)"
  using dashboard_average [of "shop_with Completed" None 0]
    dashboard_average [of shop "Some ''S1''" 0]
  by (simp add: shop_defs dashboard_def storeOrders_def average_of_def divide_number_def
      sum_total_def del: num_simps)

end
